theory Spec2Isabelle
  imports Complex_Main "HOL-Library.Char_ord" "HOL-Library.List_Lexorder"
begin

section \<open>Text primitives of the Python runtime\<close>

text \<open>
  Python strings are modelled as \<open>string\<close> (lists of 8-bit characters).  The character
  classes below follow Python on the ASCII range; characters from \<open>0x80\<close> on are treated
  as caseless, non-blank and non-word characters.
\<close>

definition is_digit :: "char \<Rightarrow> bool" where
  "is_digit c = (c \<in> set ''0123456789'')"

definition is_upper :: "char \<Rightarrow> bool" where
  "is_upper c = (c \<in> set ''ABCDEFGHIJKLMNOPQRSTUVWXYZ'')"

definition is_lower :: "char \<Rightarrow> bool" where
  "is_lower c = (c \<in> set ''abcdefghijklmnopqrstuvwxyz'')"

text \<open>\<open>str.isspace\<close>: tab, line feed, vertical tab, form feed, carriage return, the four
  separators \<open>0x1C\<close> to \<open>0x1F\<close>, and the blank.\<close>

definition is_space :: "char \<Rightarrow> bool" where
  "is_space c = (c \<in> set [CHR 0x09, CHR 0x0A, CHR 0x0B, CHR 0x0C, CHR 0x0D,
                           CHR 0x1C, CHR 0x1D, CHR 0x1E, CHR 0x1F, CHR 0x20])"

text \<open>The word characters of \<open>\w\<close> (and so of \<open>\b\<close>).\<close>

definition is_word :: "char \<Rightarrow> bool" where
  "is_word c = (is_digit c \<or> is_upper c \<or> is_lower c \<or> c = CHR ''_'')"

definition upper_char :: "char \<Rightarrow> char" where
  "upper_char c =
     (case map_of (zip ''abcdefghijklmnopqrstuvwxyz'' ''ABCDEFGHIJKLMNOPQRSTUVWXYZ'') c of
        Some u \<Rightarrow> u | None \<Rightarrow> c)"

text \<open>\<open>str.upper\<close>\<close>

definition upper :: "string \<Rightarrow> string" where
  "upper s = map upper_char s"

text \<open>\<open>sub in s\<close>\<close>

fun startswith :: "string \<Rightarrow> string \<Rightarrow> bool" where
  "startswith s [] = True"
| "startswith [] (p # ps) = False"
| "startswith (c # cs) (p # ps) = (c = p \<and> startswith cs ps)"

fun contains :: "string \<Rightarrow> string \<Rightarrow> bool" where
  "contains [] sub = (sub = [])"
| "contains (c # cs) sub = (startswith (c # cs) sub \<or> contains cs sub)"

definition endswith :: "string \<Rightarrow> string \<Rightarrow> bool" where
  "endswith s suf = startswith (rev s) (rev suf)"

text \<open>\<open>str.split()\<close> with no argument: the maximal runs of non-blank characters.\<close>

fun split_ws :: "string \<Rightarrow> string \<Rightarrow> string list" where
  "split_ws w [] = (if w = [] then [] else [rev w])"
| "split_ws w (c # cs) =
     (if is_space c then (if w = [] then split_ws [] cs else rev w # split_ws [] cs)
      else split_ws (c # w) cs)"

text \<open>\<open>sep.join(parts)\<close>\<close>

fun join :: "string \<Rightarrow> string list \<Rightarrow> string" where
  "join sep [] = []"
| "join sep [p] = p"
| "join sep (p # q # ps) = p @ sep @ join sep (q # ps)"

text \<open>\<open>str.strip()\<close>\<close>

definition strip :: "string \<Rightarrow> string" where
  "strip s = rev (dropWhile is_space (rev (dropWhile is_space s)))"

text \<open>\<open>str.splitlines()\<close>: a line ends at line feed, carriage return (with a following
  line feed), vertical tab, form feed, or one of the separators \<open>0x1C\<close> to \<open>0x1E\<close>;
  no empty last line is produced.\<close>

definition is_linebreak :: "char \<Rightarrow> bool" where
  "is_linebreak c = (c \<in> set [CHR 0x0A, CHR 0x0B, CHR 0x0C, CHR 0x0D, CHR 0x1C, CHR 0x1D, CHR 0x1E])"

fun splitlines_from :: "string \<Rightarrow> string \<Rightarrow> string list" where
  "splitlines_from l [] = (if l = [] then [] else [rev l])"
| "splitlines_from l [c] = (if is_linebreak c then [rev l] else [rev (c # l)])"
| "splitlines_from l (c # d # cs) =
     (if c = CHR 0x0D \<and> d = CHR 0x0A then rev l # splitlines_from [] cs
      else if is_linebreak c then rev l # splitlines_from [] (d # cs)
      else splitlines_from (c # l) (d # cs))"

definition splitlines :: "string \<Rightarrow> string list" where
  "splitlines s = splitlines_from [] s"

section \<open>Regular expressions with the matching order of Python's \<open>re\<close>\<close>

datatype regex =
    Eps
  | Chr char
  | Cls "char \<Rightarrow> bool"
  | Cat regex regex
  | Alt regex regex
  | Rep bool nat "nat option" regex
  | Group nat regex
  | Bol
  | Eol
  | WordB
  | NotBehind "char \<Rightarrow> bool"
  | NotAhead "char \<Rightarrow> bool"

text \<open>
  \<open>Rep greedy lo hi r\<close> is \<open>r{lo,hi}\<close> (\<open>hi = None\<close>: unbounded), greedy or lazy;
  \<open>Bol\<close> is \<open>^\<close>, \<open>Eol\<close> is \<open>$\<close>, \<open>WordB\<close> is \<open>\b\<close>, \<open>NotBehind p\<close> is
  \<open>(?<![p])\<close> and \<open>NotAhead p\<close> is \<open>(?![p])\<close>.
\<close>

text \<open>A position in a text with the groups captured so far: \<open>seen\<close> holds the characters
  already passed, last one first, and \<open>rest\<close> those still to come.\<close>

datatype mstate = MState (seen: string) (rest: string) (caps: "(nat \<times> string) list")

text \<open>One character further on.\<close>

definition advance :: "mstate \<Rightarrow> mstate" where
  "advance s = MState (hd (rest s) # seen s) (tl (rest s)) (caps s)"

type_synonym matcher = "mstate \<Rightarrow> (mstate \<Rightarrow> mstate option) \<Rightarrow> mstate option"

text \<open>
  \<open>rep f greedy n lo hi\<close> repeats the matcher \<open>f\<close>: \<open>lo\<close> turns are still owed, \<open>hi\<close> bounds the
  turns still allowed, and a turn beyond the owed ones must consume a character.  So the
  turns left never exceed \<open>lo\<close> plus the number of characters left, which is what \<open>n\<close>
  counts down from.
\<close>

definition dec :: "nat option \<Rightarrow> nat option" where
  "dec hi = map_option (\<lambda>h. h - 1) hi"

primrec rep :: "matcher \<Rightarrow> bool \<Rightarrow> nat \<Rightarrow> nat \<Rightarrow> nat option \<Rightarrow> matcher" where
  "rep f greedy 0 lo hi s k = (if lo = 0 then k s else None)"
| "rep f greedy (Suc n) lo hi s k =
     (if hi = Some 0 then (if lo = 0 then k s else None)
      else if 0 < lo then f s (\<lambda>t. rep f greedy n (lo - 1) (dec hi) t k)
      else if greedy then
        (case f s (\<lambda>t. if length (rest t) < length (rest s)
                        then rep f greedy n 0 (dec hi) t k else None) of
           Some m \<Rightarrow> Some m
         | None \<Rightarrow> k s)
      else
        (case k s of
           Some m \<Rightarrow> Some m
         | None \<Rightarrow> f s (\<lambda>t. if length (rest t) < length (rest s)
                               then rep f greedy n 0 (dec hi) t k else None)))"

definition at_word_boundary :: "mstate \<Rightarrow> bool" where
  "at_word_boundary s =
     ((case seen s of [] \<Rightarrow> False | b # _ \<Rightarrow> is_word b) \<noteq>
      (case rest s of [] \<Rightarrow> False | c # _ \<Rightarrow> is_word c))"

primrec mtch :: "regex \<Rightarrow> matcher" where
  "mtch Eps s k = k s"
| "mtch (Chr c) s k =
     (case rest s of [] \<Rightarrow> None
      | x # xs \<Rightarrow> if x = c then k (advance s) else None)"
| "mtch (Cls p) s k =
     (case rest s of [] \<Rightarrow> None
      | x # xs \<Rightarrow> if p x then k (advance s) else None)"
| "mtch (Cat a b) s k = mtch a s (\<lambda>t. mtch b t k)"
| "mtch (Alt a b) s k = (case mtch a s k of Some m \<Rightarrow> Some m | None \<Rightarrow> mtch b s k)"
| "mtch (Rep greedy lo hi r) s k =
     rep (mtch r) greedy (length (rest s) + lo) lo hi s k"
| "mtch (Group n r) s k =
     mtch r s (\<lambda>t. k (MState (seen t) (rest t)
                          ((n, take (length (rest s) - length (rest t)) (rest s)) # caps t)))"
| "mtch Bol s k = (if seen s = [] then k s else None)"
| "mtch Eol s k = (if rest s = [] \<or> rest s = [CHR 0x0A] then k s else None)"
| "mtch WordB s k = (if at_word_boundary s then k s else None)"
| "mtch (NotBehind p) s k =
     (case seen s of [] \<Rightarrow> k s | b # _ \<Rightarrow> if p b then None else k s)"
| "mtch (NotAhead p) s k =
     (case rest s of [] \<Rightarrow> k s | c # _ \<Rightarrow> if p c then None else k s)"

text \<open>
  The equations used for evaluation: the same ones, for a position that is given.  They
  keep a continuation folded until it is applied.
\<close>

lemma rep_code [code]:
  "rep f greedy 0 lo hi s k = (if lo = 0 then k s else None)"
  "rep f greedy (Suc n) lo hi (MState b u c) k =
     (if hi = Some 0 then (if lo = 0 then k (MState b u c) else None)
      else if 0 < lo then f (MState b u c) (\<lambda>t. rep f greedy n (lo - 1) (dec hi) t k)
      else if greedy then
        (case f (MState b u c) (\<lambda>t. if length (rest t) < length u
                                     then rep f greedy n 0 (dec hi) t k else None) of
           Some m \<Rightarrow> Some m
         | None \<Rightarrow> k (MState b u c))
      else
        (case k (MState b u c) of
           Some m \<Rightarrow> Some m
         | None \<Rightarrow> f (MState b u c) (\<lambda>t. if length (rest t) < length u
                                           then rep f greedy n 0 (dec hi) t k else None)))"
  by (simp_all split: option.splits)

lemma mtch_code [code]:
  "mtch Eps s k = k s"
  "mtch (Chr c) (MState b [] g) k = None"
  "mtch (Chr c) (MState b (x # xs) g) k = (if x = c then k (MState (x # b) xs g) else None)"
  "mtch (Cls p) (MState b [] g) k = None"
  "mtch (Cls p) (MState b (x # xs) g) k = (if p x then k (MState (x # b) xs g) else None)"
  "mtch (Cat r1 r2) (MState b [] g) k = mtch r1 (MState b [] g) (\<lambda>t. mtch r2 t k)"
  "mtch (Cat r1 r2) (MState b (x # xs) g) k = mtch r1 (MState b (x # xs) g) (\<lambda>t. mtch r2 t k)"
  "mtch (Alt r1 r2) (MState b [] g) k =
     (case mtch r1 (MState b [] g) k of Some m \<Rightarrow> Some m | None \<Rightarrow> mtch r2 (MState b [] g) k)"
  "mtch (Alt r1 r2) (MState b (x # xs) g) k =
     (case mtch r1 (MState b (x # xs) g) k of
        Some m \<Rightarrow> Some m | None \<Rightarrow> mtch r2 (MState b (x # xs) g) k)"
  "mtch (Rep greedy lo hi r) (MState b [] g) k = rep (mtch r) greedy lo lo hi (MState b [] g) k"
  "mtch (Rep greedy lo hi r) (MState b (x # xs) g) k =
     rep (mtch r) greedy (Suc (length xs + lo)) lo hi (MState b (x # xs) g) k"
  "mtch (Group n r) (MState b [] g) k =
     mtch r (MState b [] g) (\<lambda>t. k (MState (seen t) (rest t) ((n, []) # caps t)))"
  "mtch (Group n r) (MState b (x # xs) g) k =
     mtch r (MState b (x # xs) g)
       (\<lambda>t. k (MState (seen t) (rest t)
                  ((n, take (Suc (length xs) - length (rest t)) (x # xs)) # caps t)))"
  "mtch Bol (MState b u g) k = (if b = [] then k (MState b u g) else None)"
  "mtch Eol (MState b u g) k = (if u = [] \<or> u = [CHR 0x0A] then k (MState b u g) else None)"
  "mtch WordB (MState b u g) k = (if at_word_boundary (MState b u g) then k (MState b u g) else None)"
  "mtch (NotBehind p) (MState [] u g) k = k (MState [] u g)"
  "mtch (NotBehind p) (MState (y # ys) u g) k = (if p y then None else k (MState (y # ys) u g))"
  "mtch (NotAhead p) (MState b [] g) k = k (MState b [] g)"
  "mtch (NotAhead p) (MState b (x # xs) g) k = (if p x then None else k (MState b (x # xs) g))"
  by (simp_all add: advance_def)

text \<open>A literal string, \<open>r?\<close>, \<open>r*\<close>, \<open>r+\<close> and the lazy \<open>r*?\<close>.\<close>

definition Str :: "string \<Rightarrow> regex" where
  "Str s = foldr (\<lambda>c r. Cat (Chr c) r) s Eps"

definition Opt :: "regex \<Rightarrow> regex" where
  "Opt r = Rep True 0 (Some 1) r"

definition Star :: "regex \<Rightarrow> regex" where
  "Star r = Rep True 0 None r"

definition Plus :: "regex \<Rightarrow> regex" where
  "Plus r = Rep True 1 None r"

definition LazyStar :: "regex \<Rightarrow> regex" where
  "LazyStar r = Rep False 0 None r"

text \<open>\<open>.\<close> matches everything but a line feed.\<close>

definition Dot :: regex where
  "Dot = Cls (\<lambda>c. c \<noteq> CHR 0x0A)"

text \<open>\<open>pattern.match(s)\<close>: a match starting at the first character.\<close>

definition re_match :: "regex \<Rightarrow> string \<Rightarrow> mstate option" where
  "re_match r s = mtch r (MState [] s []) Some"

text \<open>\<open>pattern.search(s)\<close>: the leftmost start position that admits a match.\<close>

fun search_from :: "regex \<Rightarrow> string \<Rightarrow> string \<Rightarrow> mstate option" where
  "search_from r b [] = mtch r (MState b [] []) Some"
| "search_from r b (c # cs) =
     (case mtch r (MState b (c # cs) []) Some of
        Some m \<Rightarrow> Some m
      | None \<Rightarrow> search_from r (c # b) cs)"

definition re_search :: "regex \<Rightarrow> string \<Rightarrow> mstate option" where
  "re_search r s = search_from r [] s"

text \<open>\<open>m.group(n)\<close> for a group that took part in the match.\<close>

definition group :: "mstate \<Rightarrow> nat \<Rightarrow> string" where
  "group m n = (case map_of (caps m) n of Some g \<Rightarrow> g | None \<Rightarrow> [])"

text \<open>\<open>re.finditer\<close>, \<open>re.findall\<close> and \<open>re.sub\<close> walk the successive matches from
  left to right: after a match the scan resumes where it ended (one character further on
  after an empty match).  Group 0 is the whole match.\<close>

primrec finditer_from :: "nat \<Rightarrow> regex \<Rightarrow> string \<Rightarrow> string \<Rightarrow> mstate list" where
  "finditer_from 0 r b s = []"
| "finditer_from (Suc n) r b s =
     (case mtch (Group 0 r) (MState b s []) Some of
        Some m \<Rightarrow>
          (if length (rest m) < length s then m # finditer_from n r (seen m) (rest m)
           else (case s of [] \<Rightarrow> [m] | c # cs \<Rightarrow> m # finditer_from n r (c # b) cs))
      | None \<Rightarrow> (case s of [] \<Rightarrow> [] | c # cs \<Rightarrow> finditer_from n r (c # b) cs))"

definition finditer :: "regex \<Rightarrow> string \<Rightarrow> mstate list" where
  "finditer r s = finditer_from (Suc (length s)) r [] s"

text \<open>\<open>re.findall\<close> for a pattern with one group (\<open>n = 1\<close>) or none (\<open>n = 0\<close>).\<close>

definition findall :: "nat \<Rightarrow> regex \<Rightarrow> string \<Rightarrow> string list" where
  "findall n r s = map (\<lambda>m. group m n) (finditer r s)"

text \<open>\<open>re.sub(r, "", s)\<close>: the text outside the matches.\<close>

primrec sub_from :: "nat \<Rightarrow> regex \<Rightarrow> string \<Rightarrow> string \<Rightarrow> string" where
  "sub_from 0 r b s = s"
| "sub_from (Suc n) r b s =
     (case mtch r (MState b s []) Some of
        Some m \<Rightarrow>
          (if length (rest m) < length s then sub_from n r (seen m) (rest m)
           else (case s of [] \<Rightarrow> [] | c # cs \<Rightarrow> c # sub_from n r (c # b) cs))
      | None \<Rightarrow> (case s of [] \<Rightarrow> [] | c # cs \<Rightarrow> c # sub_from n r (c # b) cs))"

definition re_sub_empty :: "regex \<Rightarrow> string \<Rightarrow> string" where
  "re_sub_empty r s = sub_from (Suc (length s)) r [] s"

definition Cats :: "regex list \<Rightarrow> regex" where
  "Cats rs = foldr Cat rs Eps"

fun Alts :: "regex list \<Rightarrow> regex" where
  "Alts [] = Eps"
| "Alts [r] = r"
| "Alts (r # rs) = Alt r (Alts rs)"

section \<open>Numbers\<close>

text \<open>
  A Python \<open>float\<close> is modelled by the exact rational its decimal text denotes, together
  with the two infinities and not-a-number, which \<open>float()\<close> also reads.  Rounding to
  binary64, overflow of long literals and the sign of zero are not modelled.
\<close>

datatype pyfloat = Fin rat | Infty bool | NaN

text \<open>\<open>Infty True\<close> is the negative infinity.\<close>

fun fneg :: "pyfloat \<Rightarrow> pyfloat" where
  "fneg (Fin q) = Fin (- q)"
| "fneg (Infty n) = Infty (\<not> n)"
| "fneg NaN = NaN"

fun fabs :: "pyfloat \<Rightarrow> pyfloat" where
  "fabs (Fin q) = Fin \<bar>q\<bar>"
| "fabs (Infty n) = Infty False"
| "fabs NaN = NaN"

fun fmul :: "pyfloat \<Rightarrow> pyfloat \<Rightarrow> pyfloat" where
  "fmul (Fin a) (Fin b) = Fin (a * b)"
| "fmul (Fin a) (Infty n) = (if a = 0 then NaN else Infty (n \<noteq> (a < 0)))"
| "fmul (Infty n) (Fin b) = (if b = 0 then NaN else Infty (n \<noteq> (b < 0)))"
| "fmul (Infty m) (Infty n) = Infty (m \<noteq> n)"
| "fmul NaN y = NaN"
| "fmul x NaN = NaN"

definition digit_val :: "char \<Rightarrow> int" where
  "digit_val c = (case map_of (zip ''0123456789'' [0, 1, 2, 3, 4, 5, 6, 7, 8, 9]) c of
                    Some d \<Rightarrow> d | None \<Rightarrow> 0)"

text \<open>The value of a run of decimal digits (\<open>int(text)\<close> on such a run).\<close>

definition digits_val :: "string \<Rightarrow> int" where
  "digits_val ds = foldl (\<lambda>a c. 10 * a + digit_val c) 0 ds"

text \<open>\<open>digit (["_"] digit)*\<close> of the grammar of \<open>float()\<close>: the digits, without the
  underscores, when the text has that shape.\<close>

fun digitpart :: "string \<Rightarrow> string option" where
  "digitpart [] = None"
| "digitpart [c] = (if is_digit c then Some [c] else None)"
| "digitpart (c # d # cs) =
     (if is_digit c then
        (if d = CHR ''_'' then map_option (Cons c) (digitpart cs)
         else map_option (Cons c) (digitpart (d # cs)))
      else None)"

text \<open>\<open>[digitpart] "." digitpart | digitpart ["."]\<close>: the value of the mantissa.\<close>

definition mantissa :: "string \<Rightarrow> rat option" where
  "mantissa s =
     (let ip = takeWhile (\<lambda>c. c \<noteq> CHR ''.'') s; tl = dropWhile (\<lambda>c. c \<noteq> CHR ''.'') s in
      case tl of
        [] \<Rightarrow> map_option (\<lambda>ds. of_int (digits_val ds)) (digitpart ip)
      | _ # fp \<Rightarrow>
          (if ip = [] then
             map_option (\<lambda>fs. of_int (digits_val fs) / 10 ^ length fs) (digitpart fp)
           else
             (case digitpart ip of
                None \<Rightarrow> None
              | Some ds \<Rightarrow>
                  (if fp = [] then Some (of_int (digits_val ds))
                   else map_option
                          (\<lambda>fs. of_int (digits_val ds) + of_int (digits_val fs) / 10 ^ length fs)
                          (digitpart fp)))))"

text \<open>\<open>("e" | "E") ["+" | "-"] digitpart\<close>, given without its first letter: the power of
  ten to multiply with.\<close>

definition exponent :: "string \<Rightarrow> rat option" where
  "exponent s =
     (case s of
        [] \<Rightarrow> None
      | c # cs \<Rightarrow>
          (if c = CHR ''-'' then map_option (\<lambda>ds. 1 / 10 ^ nat (digits_val ds)) (digitpart cs)
           else if c = CHR ''+'' then map_option (\<lambda>ds. 10 ^ nat (digits_val ds)) (digitpart cs)
           else map_option (\<lambda>ds. 10 ^ nat (digits_val ds)) (digitpart s)))"

definition is_e :: "char \<Rightarrow> bool" where
  "is_e c = (c = CHR ''e'' \<or> c = CHR ''E'')"

text \<open>An unsigned float literal: \<open>inf\<close>, \<open>infinity\<close> or \<open>nan\<close> in any case, or a mantissa
  with an optional exponent.\<close>

definition absfloat :: "string \<Rightarrow> pyfloat option" where
  "absfloat s =
     (if upper s = ''INF'' \<or> upper s = ''INFINITY'' then Some (Infty False)
      else if upper s = ''NAN'' then Some NaN
      else
        (case dropWhile (\<lambda>c. \<not> is_e c) s of
           [] \<Rightarrow> map_option Fin (mantissa s)
         | _ # ex \<Rightarrow>
             (case (mantissa (takeWhile (\<lambda>c. \<not> is_e c) s), exponent ex) of
                (Some m, Some p) \<Rightarrow> Some (Fin (m * p))
              | _ \<Rightarrow> None)))"

text \<open>\<open>float(text)\<close>; \<open>None\<close> stands for the \<open>ValueError\<close> it raises on any other text.\<close>

definition py_float :: "string \<Rightarrow> pyfloat option" where
  "py_float text =
     (case strip text of
        [] \<Rightarrow> None
      | c # cs \<Rightarrow>
          (if c = CHR ''-'' then map_option fneg (absfloat cs)
           else if c = CHR ''+'' then absfloat cs
           else absfloat (c # cs)))"

text \<open>\<open>parse_number\<close>: the \<open>ValueError\<close> of \<open>float\<close> is caught and becomes \<open>None\<close>.\<close>

definition parse_number :: "string \<Rightarrow> pyfloat option" where
  "parse_number text =
     (let cleaned = strip (filter (\<lambda>c. c \<noteq> CHR '','') (filter (\<lambda>c. c \<noteq> CHR ''$'') text));
          cleaned = (if endswith cleaned ''-'' then ''-'' @ butlast cleaned else cleaned)
      in py_float cleaned)"

section \<open>The patterns of \<open>parse_trades.py\<close>\<close>

text \<open>\<open>[0-9][0-9,]*(?:\.\d+)?\<close>, the numeric field of the statement lines; the amount
  lines allow a trailing minus sign, \<open>-?\<close>.\<close>

definition num_field :: regex where
  "num_field = Cats [Cls is_digit, Star (Cls (\<lambda>c. is_digit c \<or> c = CHR '','')),
                     Opt (Cat (Chr CHR ''.'') (Plus (Cls is_digit)))]"

definition amount_field :: regex where
  "amount_field = Cat num_field (Opt (Chr CHR ''-''))"

definition RBC_ACTIVITY_START_RE :: regex where
  "RBC_ACTIVITY_START_RE = Cats [
     Alt Bol WordB,
     Group 1 (Alts [
       Cat (Str ''JAN'') (Opt (Str ''UARY'')),
       Cat (Str ''FEB'') (Opt (Str ''RUARY'')),
       Cat (Str ''MAR'') (Opt (Str ''CH'')),
       Cat (Str ''APR'') (Opt (Str ''IL'')),
       Str ''MAY'',
       Cat (Str ''JUN'') (Opt (Str ''E'')),
       Cat (Str ''JUL'') (Opt (Str ''Y'')),
       Cat (Str ''AUG'') (Opt (Str ''UST'')),
       Cat (Str ''SEP'') (Opt (Cat (Str ''T'') (Opt (Str ''EMBER'')))),
       Cat (Str ''OCT'') (Opt (Str ''OBER'')),
       Cat (Str ''NOV'') (Opt (Str ''EMBER'')),
       Cat (Str ''DEC'') (Opt (Str ''EMBER''))]),
     Opt (Chr CHR ''.''),
     Star (Cls is_space),
     Group 2 (Rep True 1 (Some 2) (Cls is_digit)),
     Plus (Cls is_space),
     Group 3 (Plus (Cls is_upper)),
     WordB,
     Star (Cls is_space),
     Group 4 (Star Dot),
     Eol]"

definition RBC_AMOUNT_LINE_RE :: regex where
  "RBC_AMOUNT_LINE_RE = Cats [
     Bol, Group 1 amount_field, Plus (Cls is_space), Group 2 amount_field,
     Plus (Cls is_space), Group 3 amount_field, Eol]"

definition RBC_INLINE_AMOUNT_RE :: regex where
  "RBC_INLINE_AMOUNT_RE = Cats [
     Bol, Group 1 (LazyStar Dot), Plus (Cls is_space), Group 2 amount_field,
     Plus (Cls is_space), Group 3 amount_field, Plus (Cls is_space), Group 4 amount_field, Eol]"

definition RBC_ASSET_LINE_RE :: regex where
  "RBC_ASSET_LINE_RE = Cats [
     Bol, Group 1 (LazyStar Dot), Plus (Cls is_space),
     Group 2 (Cat (Cls is_upper)
                (Rep True 1 (Some 12)
                   (Cls (\<lambda>c. is_upper c \<or> is_digit c \<or> c = CHR ''.'' \<or> c = CHR ''-'')))),
     Plus (Cls is_space), Group 3 num_field,
     Plus (Cls is_space), Group 4 num_field,
     Plus (Cls is_space), Group 5 num_field,
     Plus (Cls is_space), Chr CHR ''$'', Group 6 num_field, Eol]"

definition RBC_FX_RE :: regex where
  "RBC_FX_RE = Cats [
     Str ''Exchange rate 1USD = '',
     Group 1 (Plus (Cls (\<lambda>c. is_digit c \<or> c = CHR ''.''))),
     Str '' CAD'']"

definition rec_pay_digits :: regex where
  "rec_pay_digits = Plus (Cls (\<lambda>c. is_digit c \<or> c = CHR ''/''))"

definition RBC_IGNORE_DESCRIPTION_LINE_RE :: regex where
  "RBC_IGNORE_DESCRIPTION_LINE_RE = Cats [
     Bol,
     Group 1 (Alts [
       Str ''UNSOLICITED'', Str ''INTERCLASSSWITCHIN'', Str ''INTERCLASSSWITCHOUT'', Str ''ASOF'',
       Str ''AVG PRICE SHOWN'', Str ''WE ACTED AS PRINCIPAL'', Str ''THESEARESECURITIES'',
       Str ''RELATEDISSUER'',
       Cats [Str ''REC'', rec_pay_digits, Str ''PAY'', rec_pay_digits],
       Cats [Str ''REC '', rec_pay_digits, Str '' PAY '', rec_pay_digits],
       Str ''STCG'', Str ''REINV'', Str ''REINV@'', Str ''DIST ON'', Str ''CASHDIV ON'',
       Str ''CASH DIV ON'', Str ''PREMIUMDISTON'', Str ''PREMIUM DIST ON'', Str ''DA'',
       Str ''CA'']),
     Eol]"

text \<open>\<open>\((\d{3,5})\)\<close> and \<open>(?<!\d)(\d{3,5})(?!\d)\<close>\<close>

definition paren_code_re :: regex where
  "paren_code_re = Cats [Chr CHR ''('', Group 1 (Rep True 3 (Some 5) (Cls is_digit)), Chr CHR '')'']"

definition bare_code_re :: regex where
  "bare_code_re = Cats [NotBehind is_digit, Group 1 (Rep True 3 (Some 5) (Cls is_digit)),
                        NotAhead is_digit]"

text \<open>\<open>^(.*)-\d+\.pdf$\<close> and \<open>(\d{4})-(\d{2})-(\d{2})\<close>\<close>

definition copy_name_re :: regex where
  "copy_name_re = Cats [Bol, Group 1 (Star Dot), Chr CHR ''-'', Plus (Cls is_digit),
                        Str ''.pdf'', Eol]"

definition statement_date_re :: regex where
  "statement_date_re = Cats [
     Group 1 (Rep True 4 (Some 4) (Cls is_digit)), Chr CHR ''-'',
     Group 2 (Rep True 2 (Some 2) (Cls is_digit)), Chr CHR ''-'',
     Group 3 (Rep True 2 (Some 2) (Cls is_digit))]"

section \<open>Helpers of \<open>parse_trades.py\<close>\<close>

definition normalize_ticker_symbol :: "string \<Rightarrow> string" where
  "normalize_ticker_symbol ticker =
     (let t = upper (strip ticker) in
      if t = ''GOOGL'' then ''GOOG''
      else if t = ''BRKB'' then ''BRK-B''
      else t)"

definition normalize_space :: "string \<Rightarrow> string" where
  "normalize_space text = join '' '' (split_ws [] (strip text))"

definition is_key_char :: "char \<Rightarrow> bool" where
  "is_key_char c = (is_upper c \<or> is_digit c)"

definition compact_key :: "string \<Rightarrow> string" where
  "compact_key text = re_sub_empty (Plus (Cls (\<lambda>c. \<not> is_key_char c))) (upper text)"

text \<open>The set of tokens is kept as the list of matches; only its elements are used.\<close>

definition token_key_set :: "string \<Rightarrow> string list" where
  "token_key_set text = findall 0 (Plus (Cls is_key_char)) (upper text)"

definition MONTH_TO_NUMBER :: "(string \<times> int) list" where
  "MONTH_TO_NUMBER =
     [(''JAN'', 1), (''FEB'', 2), (''MAR'', 3), (''APR'', 4), (''MAY'', 5), (''JUN'', 6),
      (''JUL'', 7), (''AUG'', 8), (''SEP'', 9), (''OCT'', 10), (''NOV'', 11), (''DEC'', 12)]"

text \<open>\<open>str.rstrip(".")\<close>\<close>

definition rstrip_dots :: "string \<Rightarrow> string" where
  "rstrip_dots s = rev (dropWhile (\<lambda>c. c = CHR ''.'') (rev s))"

definition month_token_to_number :: "string \<Rightarrow> int option" where
  "month_token_to_number token =
     (let token = rstrip_dots (upper token);
          token = (if startswith token ''SEPT'' then ''SEP'' else take 3 token)
      in map_of MONTH_TO_NUMBER token)"

section \<open>Dictionaries, numbers as text, output\<close>

text \<open>A Python \<open>dict\<close> keeps its keys in insertion order and \<open>resolve_rbc_symbol\<close> iterates
  over one, so the alias tables are association lists with distinct keys, oldest first.\<close>

type_synonym alias_dict = "(string \<times> string) list"

definition setdefault :: "string \<Rightarrow> string \<Rightarrow> alias_dict \<Rightarrow> alias_dict" where
  "setdefault k v d = (if k \<in> fst ` set d then d else d @ [(k, v)])"

text \<open>The two tables: \<open>compact_to_symbol\<close> and \<open>code_to_symbol\<close>.\<close>

type_synonym alias_tables = "alias_dict \<times> alias_dict"

definition digit_char :: "int \<Rightarrow> char" where
  "digit_char d = ''0123456789'' ! nat (d mod 10)"

text \<open>\<open>str(n)\<close> for an integer that is not negative.\<close>

function str_nat :: "int \<Rightarrow> string" where
  "str_nat n = (if n < 10 then [digit_char n] else str_nat (n div 10) @ [digit_char (n mod 10)])"
  by pat_completeness auto
termination
  by (relation "measure nat") auto

text \<open>The format \<open>{n:0wd}\<close>: the sign counts in the width.\<close>

definition fmt_0d :: "nat \<Rightarrow> int \<Rightarrow> string" where
  "fmt_0d w n =
     (if n < 0 then CHR ''-'' # replicate (w - 1 - length (str_nat (- n))) CHR ''0'' @ str_nat (- n)
      else replicate (w - length (str_nat n)) CHR ''0'' @ str_nat n)"

text \<open>\<open>f"{year:04d}-{month_num:02d}-{day:02d}"\<close>\<close>

definition iso_date_of :: "int \<Rightarrow> int \<Rightarrow> int \<Rightarrow> string" where
  "iso_date_of year month_num day = fmt_0d 4 year @ ''-'' @ fmt_0d 2 month_num @ ''-'' @ fmt_0d 2 day"

section \<open>The statement files\<close>

text \<open>
  \<open>list_rbc_statement_pdfs\<close>.  The directory \<open>RBC_DIR\<close> is given by the names of its entries
  (\<open>None\<close>: it does not exist).  \<open>glob("*.pdf")\<close> yields the entries whose name ends in
  \<open>.pdf\<close>, and \<open>sorted\<close> orders paths of one directory by their names.
\<close>

definition keep_pdf :: "string list \<Rightarrow> string \<Rightarrow> bool" where
  "keep_pdf entries name =
     (case re_match copy_name_re name of
        Some m \<Rightarrow> \<not> (group m 1 @ ''.pdf'') \<in> set entries
      | None \<Rightarrow> True)"

definition list_rbc_statement_pdfs :: "string list option \<Rightarrow> string list" where
  "list_rbc_statement_pdfs dir =
     (case dir of
        None \<Rightarrow> []
      | Some entries \<Rightarrow>
          filter (keep_pdf entries) (sort (filter (\<lambda>n. endswith n ''.pdf'') entries)))"

text \<open>\<open>extract_statement_year_month\<close>, on the file name.\<close>

definition extract_statement_year_month :: "string \<Rightarrow> (int \<times> int \<times> int) option" where
  "extract_statement_year_month name =
     (case re_search statement_date_re name of
        None \<Rightarrow> None
      | Some m \<Rightarrow> Some (digits_val (group m 1), digits_val (group m 2), digits_val (group m 3)))"

fun statement_usd_to_cad_rate :: "string list \<Rightarrow> pyfloat" where
  "statement_usd_to_cad_rate [] = Fin (135 / 100)"
| "statement_usd_to_cad_rate (page # pages) =
     (case re_search RBC_FX_RE page of
        None \<Rightarrow> statement_usd_to_cad_rate pages
      | Some m \<Rightarrow>
          (case py_float (group m 1) of
             Some r \<Rightarrow> r
           | None \<Rightarrow> statement_usd_to_cad_rate pages))"

section \<open>The alias tables\<close>

text \<open>\<open>str.isdigit\<close>\<close>

definition isdigit :: "string \<Rightarrow> bool" where
  "isdigit s = (s \<noteq> [] \<and> list_all is_digit s)"

text \<open>The body of the inner loop of \<open>collect_rbc_asset_aliases\<close> from the pattern match on:
  what a line of an asset review adds to the tables.\<close>

definition add_asset_line :: "string \<Rightarrow> alias_tables \<Rightarrow> alias_tables" where
  "add_asset_line line tabs =
     (case re_match RBC_ASSET_LINE_RE line of
        None \<Rightarrow> tabs
      | Some m \<Rightarrow>
          (let desc = normalize_space (group m 1);
               symbol = normalize_ticker_symbol (upper (group m 2));
               key = compact_key desc;
               compact_to_symbol = (if key \<noteq> [] then setdefault key symbol (fst tabs) else fst tabs);
               code_to_symbol = snd tabs;
               code_to_symbol =
                 (case re_search paren_code_re desc of
                    Some code_match \<Rightarrow> setdefault (group code_match 1) symbol code_to_symbol
                  | None \<Rightarrow> code_to_symbol);
               code_to_symbol =
                 (if startswith symbol ''RBF'' \<and> isdigit (drop 3 symbol)
                  then setdefault (drop 3 symbol) symbol code_to_symbol else code_to_symbol);
               code_to_symbol =
                 (if startswith symbol ''FID'' \<and> isdigit (drop 3 symbol)
                  then setdefault (drop 3 symbol) symbol code_to_symbol else code_to_symbol)
           in (compact_to_symbol, code_to_symbol)))"

text \<open>One turn of the inner loop: the state is the flag \<open>in_asset_review\<close> and the tables.\<close>

definition alias_line :: "bool \<times> alias_tables \<Rightarrow> string \<Rightarrow> bool \<times> alias_tables" where
  "alias_line st line =
     (let in_asset_review = fst st; tabs = snd st in
      if line = [] then st
      else if contains line ''Asset Review'' then (True, tabs)
      else if in_asset_review \<and> contains line ''Account Activity'' then (False, tabs)
      else if \<not> in_asset_review then st
      else (in_asset_review, add_asset_line line tabs))"

text \<open>One turn of the outer loop: the flag is set to \<open>False\<close> for every page.\<close>

definition alias_page :: "alias_tables \<Rightarrow> string \<Rightarrow> alias_tables" where
  "alias_page tabs page =
     snd (foldl alias_line (False, tabs) (map normalize_space (splitlines page)))"

definition collect_rbc_asset_aliases :: "string list \<Rightarrow> alias_tables \<Rightarrow> alias_tables" where
  "collect_rbc_asset_aliases pages tabs = foldl alias_page tabs pages"

section \<open>Symbol resolution\<close>

text \<open>The first of the codes that is a key of \<open>code_to_symbol\<close>, with its symbol.\<close>

fun first_known :: "alias_dict \<Rightarrow> string list \<Rightarrow> string option" where
  "first_known d [] = None"
| "first_known d (c # cs) = (case map_of d c of Some symbol \<Rightarrow> Some symbol | None \<Rightarrow> first_known d cs)"

text \<open>The score of one entry of \<open>compact_to_symbol\<close>, when it is a candidate.\<close>

definition entry_score :: "string \<Rightarrow> string list \<Rightarrow> string \<Rightarrow> nat option" where
  "entry_score compact_desc desc_tokens key =
     (if key = [] then None
      else if compact_desc \<noteq> [] \<and> (contains key compact_desc \<or> contains compact_desc key)
      then Some (min (length key) (length compact_desc))
      else
        (let overlap = card (set desc_tokens \<inter> set (token_key_set key)) in
         if 2 \<le> overlap then Some (overlap * 100 + min (length key) (length compact_desc))
         else None))"

definition candidates_of :: "string \<Rightarrow> string list \<Rightarrow> alias_dict \<Rightarrow> (nat \<times> string) list" where
  "candidates_of compact_desc desc_tokens compact_to_symbol =
     concat (map (\<lambda>(key, symbol).
                    case entry_score compact_desc desc_tokens key of
                      Some score \<Rightarrow> [(score, symbol)] | None \<Rightarrow> [])
                 compact_to_symbol)"

text \<open>\<open>candidates.sort(key=lambda x: x[0], reverse=True)\<close>: a stable sort by falling score.\<close>

definition sort_by_score_desc :: "(nat \<times> string) list \<Rightarrow> (nat \<times> string) list" where
  "sort_by_score_desc cands = sort_key (\<lambda>c. - int (fst c)) cands"

definition resolve_rbc_symbol :: "string \<Rightarrow> alias_dict \<Rightarrow> alias_dict \<Rightarrow> string option" where
  "resolve_rbc_symbol desc_text compact_to_symbol code_to_symbol =
     (let desc_text = normalize_space desc_text in
      if desc_text = [] then None
      else
        (let upper_desc = upper desc_text;
             compact_desc = compact_key upper_desc in
         case first_known code_to_symbol (findall 1 paren_code_re upper_desc) of
           Some symbol \<Rightarrow> Some symbol
         | None \<Rightarrow>
         (case first_known code_to_symbol (findall 1 bare_code_re upper_desc) of
           Some symbol \<Rightarrow> Some symbol
         | None \<Rightarrow>
         (case map_of compact_to_symbol compact_desc of
           Some symbol \<Rightarrow> Some symbol
         | None \<Rightarrow>
         (case sort_by_score_desc
                 (candidates_of compact_desc (token_key_set desc_text) compact_to_symbol) of
            [] \<Rightarrow>
              (case re_search paren_code_re upper_desc of
                 None \<Rightarrow> None
               | Some m_rbc \<Rightarrow>
                   (if contains upper_desc ''RBC'' then Some (''RBF'' @ group m_rbc 1)
                    else if contains upper_desc ''FIDELITY'' then Some (''FID'' @ group m_rbc 1)
                    else None))
          | best # _ \<Rightarrow> Some (snd best))))))"

section \<open>The activity walk of \<open>parse_rbc_statement_trades\<close>\<close>

text \<open>The dictionary \<open>current\<close>, the tuples appended to \<open>trades\<close> and to \<open>unresolved\<close>, and the
  variables of the walk that change.\<close>

record pending =
  p_date :: string
  p_side :: string
  p_currency :: string
  p_desc_parts :: "string list"
  p_amount :: "pyfloat option"

type_synonym trade = "string \<times> string \<times> string \<times> pyfloat"

record walk =
  current :: "pending option"
  in_activity :: bool
  trades :: "trade list"
  unresolved :: "trade list"

text \<open>What the walk only reads: the alias tables, the rate and the statement's year and month.\<close>

record statement_ctx =
  compact_to_symbol :: alias_dict
  code_to_symbol :: alias_dict
  usd_to_cad :: pyfloat
  statement_year :: int
  statement_month :: int

text \<open>\<open>flush_current\<close>.  A symbol that is the empty string counts as none (\<open>if not symbol\<close>).\<close>

definition flush_current :: "statement_ctx \<Rightarrow> walk \<Rightarrow> walk" where
  "flush_current ctx w =
     (case current w of
        None \<Rightarrow> w
      | Some cur \<Rightarrow>
          (case p_amount cur of
             None \<Rightarrow> w\<lparr>current := None\<rparr>
           | Some amount \<Rightarrow>
               (let desc_text = normalize_space (join '' '' (p_desc_parts cur));
                    symbol = resolve_rbc_symbol desc_text (compact_to_symbol ctx) (code_to_symbol ctx)
                in if symbol = None \<or> symbol = Some []
                   then w\<lparr>unresolved := unresolved w @ [(p_date cur, p_side cur, desc_text, amount)],
                          current := None\<rparr>
                   else
                     (let trade_amount =
                            (if p_currency cur = ''USD'' then fmul amount (usd_to_cad ctx) else amount)
                      in w\<lparr>trades := trades w @ [(p_date cur, p_side cur, the symbol, fabs trade_amount)],
                            current := None\<rparr>))))"

text \<open>The branch of the loop body for a line that \<open>RBC_ACTIVITY_START_RE\<close> matched.\<close>

definition activity_start :: "statement_ctx \<Rightarrow> string \<Rightarrow> walk \<Rightarrow> mstate \<Rightarrow> walk" where
  "activity_start ctx page_currency w m =
     (let mon = group m 1; day_text = group m 2; activity = upper (group m 3); rest_text = group m 4 in
      if activity \<noteq> ''BOUGHT'' \<and> activity \<noteq> ''SOLD'' then
        (let w = (case current w of
                    Some cur \<Rightarrow> (if p_amount cur \<noteq> None then flush_current ctx w else w)
                  | None \<Rightarrow> w)
         in w\<lparr>current := None\<rparr>)
      else
        (let w = flush_current ctx w;
             day = digits_val day_text in
         case month_token_to_number mon of
           None \<Rightarrow> w\<lparr>current := None\<rparr>
         | Some month_num \<Rightarrow>
             (if month_num = 0 then w\<lparr>current := None\<rparr>
              else
                (let year = (if statement_month ctx = 1 \<and> month_num = 12
                             then statement_year ctx - 1 else statement_year ctx);
                     side = (if activity = ''BOUGHT'' then ''BUY'' else ''SELL'');
                     desc = normalize_space rest_text;
                     m_inline = re_match RBC_INLINE_AMOUNT_RE desc;
                     amount = (case m_inline of Some mi \<Rightarrow> parse_number (group mi 4) | None \<Rightarrow> None);
                     desc = (case m_inline of Some mi \<Rightarrow> normalize_space (group mi 1) | None \<Rightarrow> desc);
                     iso_date = iso_date_of year month_num day
                 in w\<lparr>current := Some \<lparr>p_date = iso_date, p_side = side, p_currency = page_currency,
                                         p_desc_parts = (if desc \<noteq> [] then [desc] else []),
                                         p_amount = amount\<rparr>\<rparr>))))"

text \<open>The branch of the loop body for the lines after an activity start: amounts and
  description fragments of the live candidate.\<close>

definition candidate_line :: "pending \<Rightarrow> string \<Rightarrow> pending" where
  "candidate_line cur line =
     (case (re_match RBC_AMOUNT_LINE_RE line, p_amount cur) of
        (Some m_amt, None) \<Rightarrow> cur\<lparr>p_amount := parse_number (group m_amt 3)\<rparr>
      | _ \<Rightarrow>
         (case (re_match RBC_INLINE_AMOUNT_RE line, p_amount cur) of
            (Some m_inline, None) \<Rightarrow>
              (let desc_line = normalize_space (group m_inline 1);
                   parts = (if desc_line \<noteq> [] then p_desc_parts cur @ [desc_line] else p_desc_parts cur)
               in cur\<lparr>p_desc_parts := parts, p_amount := parse_number (group m_inline 4)\<rparr>)
          | _ \<Rightarrow>
             (if re_match RBC_IGNORE_DESCRIPTION_LINE_RE (upper line) \<noteq> None then cur
              else cur\<lparr>p_desc_parts := p_desc_parts cur @ [line]\<rparr>)))"

definition is_header_line :: "string \<Rightarrow> bool" where
  "is_header_line line =
     (startswith line ''Opening Balance'' \<or> line = ''PRICE'' \<or> line = ''DATE ACTIVITY DESCRIPTION''
      \<or> line = ''QUANTITY '' @ [CHR 0x5C] @ ''RATE DEBIT CREDIT'')"

text \<open>\<open>RBC_ACTIVITY_START_RE.match(line)\<close>, and \<open>.search(line)\<close> when that fails.\<close>

definition activity_match :: "string \<Rightarrow> mstate option" where
  "activity_match line =
     (case re_match RBC_ACTIVITY_START_RE line of
        Some m \<Rightarrow> Some m
      | None \<Rightarrow> re_search RBC_ACTIVITY_START_RE line)"

text \<open>The body of the loop over the lines of a page.\<close>

definition process_line :: "statement_ctx \<Rightarrow> string \<Rightarrow> walk \<Rightarrow> string \<Rightarrow> walk" where
  "process_line ctx page_currency w line =
     (if line = [] then w
      else if contains line ''FOOTNOTES'' then (flush_current ctx w)\<lparr>in_activity := False\<rparr>
      else if contains line ''Account Activity'' then (flush_current ctx w)\<lparr>in_activity := True\<rparr>
      else if \<not> in_activity w then w
      else if startswith line ''Closing Balance'' then (flush_current ctx w)\<lparr>in_activity := False\<rparr>
      else
        (case activity_match line of
           Some m_activity \<Rightarrow> activity_start ctx page_currency w m_activity
         | None \<Rightarrow>
             (if is_header_line line then w
              else
                (case current w of
                   None \<Rightarrow> w
                 | Some cur \<Rightarrow> w\<lparr>current := Some (candidate_line cur line)\<rparr>))))"

text \<open>The body of the loop over the pages.\<close>

definition page_currency_of :: "string \<Rightarrow> string" where
  "page_currency_of page = (if contains page ''Statement (U.S.$)'' then ''USD'' else ''CAD'')"

definition process_page :: "statement_ctx \<Rightarrow> walk \<Rightarrow> string \<Rightarrow> walk" where
  "process_page ctx w page =
     foldl (process_line ctx (page_currency_of page)) w (map normalize_space (splitlines page))"

definition walk_pages :: "statement_ctx \<Rightarrow> string list \<Rightarrow> walk" where
  "walk_pages ctx pages =
     flush_current ctx
       (foldl (process_page ctx)
          \<lparr>current = None, in_activity = False, trades = [], unresolved = []\<rparr> pages)"

text \<open>\<open>parse_rbc_statement_trades\<close>: the trades it returns and the lines it prints.\<close>

definition parse_rbc_statement_trades ::
  "string \<Rightarrow> string list \<Rightarrow> alias_dict \<Rightarrow> alias_dict \<Rightarrow> trade list \<times> string list" where
  "parse_rbc_statement_trades name pages c2s code2s =
     (case extract_statement_year_month name of
        None \<Rightarrow> ([], [])
      | Some (year, month, day) \<Rightarrow>
          (let w = walk_pages \<lparr>compact_to_symbol = c2s, code_to_symbol = code2s,
                                usd_to_cad = statement_usd_to_cad_rate pages,
                                statement_year = year, statement_month = month\<rparr> pages
           in (trades w,
               if unresolved w \<noteq> []
               then [''RBC unresolved symbols in '' @ name @ '': '' @ str_nat (int (length (unresolved w)))]
               else [])))"

section \<open>The driver \<open>parse_rbc\<close>\<close>

text \<open>
  The text extraction is outside this program: \<open>extracted\<close> is what
  \<open>extract_pdf_pages_with_swift\<close> returned, a dictionary from file to pages, or \<open>None\<close> when
  it raised.  A file with no pages, or with none extracted, is passed over.
\<close>

definition pages_of :: "(string \<Rightarrow> string list option) \<Rightarrow> string \<Rightarrow> string list" where
  "pages_of pages_by_file name = (case pages_by_file name of Some pages \<Rightarrow> pages | None \<Rightarrow> [])"

definition build_aliases :: "(string \<Rightarrow> string list option) \<Rightarrow> string list \<Rightarrow> alias_tables" where
  "build_aliases pages_by_file pdf_paths =
     foldl (\<lambda>tabs name. collect_rbc_asset_aliases (pages_of pages_by_file name) tabs) ([], []) pdf_paths"

definition statement_results ::
  "(string \<Rightarrow> string list option) \<Rightarrow> alias_tables \<Rightarrow> string \<Rightarrow> trade list \<times> string list" where
  "statement_results pages_by_file tabs name =
     (if pages_of pages_by_file name = [] then ([], [])
      else parse_rbc_statement_trades name (pages_of pages_by_file name) (fst tabs) (snd tabs))"

definition parse_rbc ::
  "string list option \<Rightarrow> (string \<Rightarrow> string list option) option \<Rightarrow> trade list \<times> string list" where
  "parse_rbc dir extracted =
     (let pdf_paths = list_rbc_statement_pdfs dir in
      if pdf_paths = [] then ([], [])
      else
        (case extracted of
           None \<Rightarrow> ([], [''Failed to parse RBC PDFs''])
         | Some pages_by_file \<Rightarrow>
             (let tabs = build_aliases pages_by_file pdf_paths;
                  results = map (statement_results pages_by_file tabs) pdf_paths;
                  trades = concat (map fst results)
              in (trades,
                  concat (map snd results) @
                  [''Parsed RBC statements: '' @ str_nat (int (length pdf_paths)) @ '' files'',
                   ''Parsed RBC trades: '' @ str_nat (int (length trades))]))))"

section \<open>Notions used in the statements\<close>

text \<open>The symbol a candidate's description resolves to; the empty string is no symbol.\<close>

definition resolves_to :: "statement_ctx \<Rightarrow> pending \<Rightarrow> string option" where
  "resolves_to ctx cur =
     (case resolve_rbc_symbol (normalize_space (join '' '' (p_desc_parts cur)))
             (compact_to_symbol ctx) (code_to_symbol ctx) of
        None \<Rightarrow> None
      | Some symbol \<Rightarrow> if symbol = [] then None else Some symbol)"

text \<open>The trade and the diagnostic record a candidate with an amount gives rise to.\<close>

definition trade_of :: "statement_ctx \<Rightarrow> pending \<Rightarrow> pyfloat \<Rightarrow> string \<Rightarrow> trade" where
  "trade_of ctx cur amount symbol =
     (p_date cur, p_side cur, symbol,
      fabs (if p_currency cur = ''USD'' then fmul amount (usd_to_cad ctx) else amount))"

definition unresolved_of :: "pending \<Rightarrow> pyfloat \<Rightarrow> trade" where
  "unresolved_of cur amount =
     (p_date cur, p_side cur, normalize_space (join '' '' (p_desc_parts cur)), amount)"

text \<open>Sample data: a statement context that knows one fund code, a candidate, and a walk in
  which that candidate is live.\<close>

definition ex_ctx :: statement_ctx where
  "ex_ctx = \<lparr>compact_to_symbol = [], code_to_symbol = [(''12345'', ''XYZF'')],
             usd_to_cad = Fin (135 / 100), statement_year = 2023, statement_month = 2\<rparr>"

definition ex_pending :: "string \<Rightarrow> pyfloat option \<Rightarrow> pending" where
  "ex_pending desc amount =
     \<lparr>p_date = ''2023-01-15'', p_side = ''BUY'', p_currency = ''USD'',
      p_desc_parts = [desc], p_amount = amount\<rparr>"

definition ex_walk :: "pending \<Rightarrow> walk" where
  "ex_walk cur = \<lparr>current = Some cur, in_activity = True, trades = [], unresolved = []\<rparr>"

text \<open>A line that the walk takes past the section markers, inside an activity section.\<close>

definition reaches_activity_match :: "walk \<Rightarrow> string \<Rightarrow> bool" where
  "reaches_activity_match w line =
     (line \<noteq> [] \<and> \<not> contains line ''FOOTNOTES'' \<and> \<not> contains line ''Account Activity'' \<and>
      in_activity w \<and> \<not> startswith line ''Closing Balance'')"

text \<open>A line that the walk hands to the live candidate: it is no section marker, no
  activity start and no column header.\<close>

definition reaches_candidate :: "walk \<Rightarrow> string \<Rightarrow> bool" where
  "reaches_candidate w line =
     (reaches_activity_match w line \<and> activity_match line = None \<and> \<not> is_header_line line)"

text \<open>The third numeric field of an amount-triplet line or of an inline-amount line.\<close>

definition third_field :: "string \<Rightarrow> string option" where
  "third_field line =
     (case re_match RBC_AMOUNT_LINE_RE line of
        Some m \<Rightarrow> Some (group m 3)
      | None \<Rightarrow> map_option (\<lambda>m. group m 4) (re_match RBC_INLINE_AMOUNT_RE line))"

text \<open>The amount of the live candidate, if there is one and it has one.\<close>

definition amount_of :: "walk \<Rightarrow> pyfloat option" where
  "amount_of w = (case current w of Some cur \<Rightarrow> p_amount cur | None \<Rightarrow> None)"

text \<open>More sample data: a page given by its lines, a walk inside an activity section with
  no candidate, a statement dated January 2023, and some lines of a statement.\<close>

definition page_of_lines :: "string list \<Rightarrow> string" where
  "page_of_lines ls = concat (map (\<lambda>l. l @ [CHR 0x0A]) ls)"

definition ex_open_walk :: walk where
  "ex_open_walk = \<lparr>current = None, in_activity = True, trades = [], unresolved = []\<rparr>"

definition ex_ctx_jan :: statement_ctx where
  "ex_ctx_jan = \<lparr>compact_to_symbol = [], code_to_symbol = [(''12345'', ''XYZF'')],
                 usd_to_cad = Fin (135 / 100), statement_year = 2023, statement_month = 1\<rparr>"

definition ex_dec_line :: string where
  "ex_dec_line = ''DEC.29 SOLD XYZ FUND (12345)''"

definition ex_triplet :: string where
  "ex_triplet = ''100.000 10.00 1,000.00-''"

definition ex_inline :: string where
  "ex_inline = ''XYZ FUND 100.000 10.00 1,000.00-''"

definition ex_trade_page :: string where
  "ex_trade_page = page_of_lines [''Account Activity'',
     ''JAN.15 BOUGHT XYZ FUND (12345) 100.000 10.00 1,000.00-'', ''Closing Balance 3'']"

text \<open>The lines of a page as both loops see them, and the lines that switch the activity
  section on or off.\<close>

definition page_lines :: "string \<Rightarrow> string list" where
  "page_lines page = map normalize_space (splitlines page)"

definition is_activity_marker :: "string \<Rightarrow> bool" where
  "is_activity_marker line =
     (contains line ''FOOTNOTES'' \<or> contains line ''Account Activity'' \<or>
      startswith line ''Closing Balance'')"

definition ex_asset_row :: string where
  "ex_asset_row = ''XYZ FUND (12345) XYZF 100.000 10.00 9.50 $1,000.00''"

text \<open>What the resolver derives from a description: its upper-case form, its compact
  form, the codes in parentheses and the free-standing codes, and the candidates.\<close>

definition upper_desc_of :: "string \<Rightarrow> string" where
  "upper_desc_of desc = upper (normalize_space desc)"

definition compact_desc_of :: "string \<Rightarrow> string" where
  "compact_desc_of desc = compact_key (upper_desc_of desc)"

definition paren_codes :: "string \<Rightarrow> string list" where
  "paren_codes desc = findall 1 paren_code_re (upper_desc_of desc)"

definition bare_codes :: "string \<Rightarrow> string list" where
  "bare_codes desc = findall 1 bare_code_re (upper_desc_of desc)"

definition scored :: "string \<Rightarrow> alias_dict \<Rightarrow> (nat \<times> string) list" where
  "scored desc c2s = candidates_of (compact_desc_of desc) (token_key_set (normalize_space desc)) c2s"

text \<open>The number of tokens a description shares with a key.\<close>

definition overlap_of :: "string \<Rightarrow> string \<Rightarrow> nat" where
  "overlap_of desc key = card (set (token_key_set (normalize_space desc)) \<inter> set (token_key_set key))"

definition contained :: "string \<Rightarrow> string \<Rightarrow> bool" where
  "contained desc key =
     (compact_desc_of desc \<noteq> [] \<and>
      (contains key (compact_desc_of desc) \<or> contains (compact_desc_of desc) key))"

text \<open>The symbol made up from the issuer's name and the first code in parentheses.\<close>

definition first_paren_code :: "string \<Rightarrow> string option" where
  "first_paren_code desc = map_option (\<lambda>m. group m 1) (re_search paren_code_re (upper_desc_of desc))"

definition issuer_fallback :: "string \<Rightarrow> string option" where
  "issuer_fallback desc =
     (case first_paren_code desc of
        None \<Rightarrow> None
      | Some code \<Rightarrow>
          (if contains (upper_desc_of desc) ''RBC'' then Some (''RBF'' @ code)
           else if contains (upper_desc_of desc) ''FIDELITY'' then Some (''FID'' @ code)
           else None))"

definition ex_codes :: alias_dict where
  "ex_codes = [(''678'', ''BBB''), (''12345'', ''AAA'')]"

definition ex_names :: alias_dict where
  "ex_names = [(''ACME'', ''XXX''), (''ACMECORPCLASSAB'', ''ACME''), (''ZED WORKS LTD'', ''ZED'')]"

definition ex_review_page :: string where
  "ex_review_page = page_of_lines [''Asset Review'', ex_asset_row]"

definition ex_files :: "string \<Rightarrow> string list option" where
  "ex_files = map_of [(''a-2023-01-10.pdf'', [ex_review_page]), (''b-2023-02-10.pdf'', [ex_trade_page])]"

definition ex_dir :: "string list option" where
  "ex_dir = Some [''a-2023-01-10.pdf'', ''b-2023-02-10.pdf'']"

text \<open>The pages of all the files, in the order of the files.\<close>

definition all_pages :: "(string \<Rightarrow> string list option) \<Rightarrow> string list \<Rightarrow> string list" where
  "all_pages pages_by_file pdf_paths = concat (map (pages_of pages_by_file) pdf_paths)"

section \<open>Verified properties\<close>

subsection \<open>Flushing the live candidate\<close>

lemma ex_selectors:
  "current (ex_walk c) = Some c" "trades (ex_walk c) = []" "unresolved (ex_walk c) = []"
  "in_activity (ex_walk c) = True"
  "p_amount (ex_pending d x) = x" "p_currency (ex_pending d x) = ''USD''"
  "p_date (ex_pending d x) = ''2023-01-15''" "p_side (ex_pending d x) = ''BUY''"
  "p_desc_parts (ex_pending d x) = [d]" "usd_to_cad ex_ctx = Fin (135 / 100)"
  "statement_year ex_ctx = 2023" "statement_month ex_ctx = 2"
  by (simp_all add: ex_pending_def ex_ctx_def ex_walk_def)

lemma ex_resolves_known: "resolves_to ex_ctx (ex_pending ''XYZ FUND (12345)'' a) = Some ''XYZF''"
  by code_simp

lemma ex_resolves_unknown: "resolves_to ex_ctx (ex_pending ''MYSTERY CO'' a) = None"
  by code_simp

text \<open>
  C2.  Flushing a live candidate always clears it.  A trade is appended exactly when the
  candidate has an amount and its description resolves to a symbol; with an amount but no
  symbol the candidate goes to the unresolved diagnostics and not to the trades; without
  an amount nothing is recorded at all.
\<close>

theorem flush_current_outcomes:
  "current w = Some cur \<Longrightarrow>
     current (flush_current ctx w) = None \<and>
     in_activity (flush_current ctx w) = in_activity w \<and>
     ((\<exists>t. trades (flush_current ctx w) = trades w @ [t]) \<longleftrightarrow>
        p_amount cur \<noteq> None \<and> resolves_to ctx cur \<noteq> None) \<and>
     (case (p_amount cur, resolves_to ctx cur) of
        (Some amount, Some symbol) \<Rightarrow>
          trades (flush_current ctx w) = trades w @ [trade_of ctx cur amount symbol] \<and>
          unresolved (flush_current ctx w) = unresolved w
      | (Some amount, None) \<Rightarrow>
          trades (flush_current ctx w) = trades w \<and>
          unresolved (flush_current ctx w) = unresolved w @ [unresolved_of cur amount]
      | (None, _) \<Rightarrow>
          trades (flush_current ctx w) = trades w \<and>
          unresolved (flush_current ctx w) = unresolved w)"
  by (auto simp: flush_current_def resolves_to_def trade_of_def unresolved_of_def Let_def
           split: option.splits if_splits)

theorem flush_current_outcomes_witness:
  "(let w = ex_walk (ex_pending ''XYZ FUND (12345)'' (Some (Fin (- 1000))));
        w' = flush_current ex_ctx w
    in current w \<noteq> None \<and> current w' = None \<and>
       trades w' = [(''2023-01-15'', ''BUY'', ''XYZF'', Fin 1350)] \<and> unresolved w' = []) \<and>
   (let w = ex_walk (ex_pending ''MYSTERY CO'' (Some (Fin (- 1000))));
        w' = flush_current ex_ctx w
    in current w \<noteq> None \<and> current w' = None \<and> trades w' = [] \<and>
       unresolved w' = [(''2023-01-15'', ''BUY'', ''MYSTERY CO'', Fin (- 1000))]) \<and>
   (let w = ex_walk (ex_pending ''XYZ FUND (12345)'' None);
        w' = flush_current ex_ctx w
    in current w \<noteq> None \<and> current w' = None \<and> trades w' = [] \<and> unresolved w' = [])"
proof -
  have n: "normalize_space ''MYSTERY CO'' = ''MYSTERY CO''"
    by code_simp
  show ?thesis
    using flush_current_outcomes [OF ex_selectors(1), of ex_ctx "ex_pending ''XYZ FUND (12345)'' (Some (Fin (- 1000)))"]
          flush_current_outcomes [OF ex_selectors(1), of ex_ctx "ex_pending ''MYSTERY CO'' (Some (Fin (- 1000)))"]
          flush_current_outcomes [OF ex_selectors(1), of ex_ctx "ex_pending ''XYZ FUND (12345)'' None"]
    by (simp add: Let_def ex_resolves_known ex_resolves_unknown trade_of_def unresolved_of_def n
          ex_selectors)
qed

subsection \<open>The year of a trade\<close>

lemma flush_current_in_activity [simp]: "in_activity (flush_current ctx w) = in_activity w"
  by (simp add: flush_current_def Let_def split: option.splits)

lemma month_number_range: "month_token_to_number t = Some n \<Longrightarrow> 1 \<le> n \<and> n \<le> 12"
  by (auto simp: month_token_to_number_def MONTH_TO_NUMBER_def Let_def split: if_splits)

lemma ex_dec_match: "activity_match ex_dec_line \<noteq> None"
  by code_simp

lemma ex_dec_groups:
  "upper (group (the (activity_match ex_dec_line)) 3) = ''SOLD''"
  "month_token_to_number (group (the (activity_match ex_dec_line)) 1) = Some 12"
  "digits_val (group (the (activity_match ex_dec_line)) 2) = 29"
  by code_simp+

lemma ex_dec_reaches: "reaches_activity_match ex_open_walk ex_dec_line"
  by code_simp

lemma ex_iso_date: "iso_date_of 2022 12 29 = ''2022-12-29''"
  by code_simp

text \<open>
  C3.  An activity-start line with the verb BOUGHT or SOLD, in a statement of year \<open>Y\<close> and
  month \<open>M\<close>, creates a candidate whose date has the year \<open>Y - 1\<close> when \<open>M = 1\<close> and the
  line's month is December, and the year \<open>Y\<close> for every other pair of months.
\<close>

theorem activity_start_year:
  assumes "reaches_activity_match w line"
    and "activity_match line = Some m"
    and "upper (group m 3) = ''BOUGHT'' \<or> upper (group m 3) = ''SOLD''"
    and "month_token_to_number (group m 1) = Some month_num"
  shows "\<exists>cur. current (process_line ctx page_currency w line) = Some cur \<and>
           p_date cur =
             iso_date_of (if statement_month ctx = 1 \<and> month_num = 12
                          then statement_year ctx - 1 else statement_year ctx)
               month_num (digits_val (group m 2))"
  using assms month_number_range [of "group m 1" month_num]
  by (auto simp: reaches_activity_match_def process_line_def activity_start_def Let_def)

theorem activity_start_year_witness:
  "reaches_activity_match ex_open_walk ex_dec_line \<and>
   statement_year ex_ctx_jan = 2023 \<and> statement_month ex_ctx_jan = 1 \<and>
   (\<exists>cur. current (process_line ex_ctx_jan ''CAD'' ex_open_walk ex_dec_line) = Some cur \<and>
          p_date cur = ''2022-12-29'')"
proof -
  have m: "activity_match ex_dec_line = Some (the (activity_match ex_dec_line))"
    using ex_dec_match by simp
  have "statement_year ex_ctx_jan = 2023" "statement_month ex_ctx_jan = 1"
    by (simp_all add: ex_ctx_jan_def)
  then show ?thesis
    using activity_start_year [OF ex_dec_reaches m _ ex_dec_groups(2), of ex_ctx_jan "''CAD''"]
    by (simp add: ex_dec_groups ex_iso_date ex_dec_reaches)
qed

subsection \<open>The amount of a candidate\<close>

lemma ex_reaches_candidate:
  "reaches_candidate (ex_walk c) ex_triplet" "reaches_candidate (ex_walk c) ex_inline"
  by code_simp+

lemma ex_third_field:
  "third_field ex_triplet = Some ''1,000.00-''" "third_field ex_inline = Some ''1,000.00-''"
  by code_simp+

lemma ex_parse_amount: "parse_number ''1,000.00-'' = Some (Fin (- 1000))"
  by code_simp

text \<open>
  C4.  When an amount-triplet line or an inline-amount line reaches a live candidate, a
  candidate without an amount gets the parsed value of the third numeric field of the
  triplet, and a candidate that has an amount keeps it, whatever the line is.
\<close>

theorem amount_set_once:
  assumes "reaches_candidate w line" and "current w = Some cur"
  shows "current (process_line ctx page_currency w line) \<noteq> None \<and>
         amount_of (process_line ctx page_currency w line) =
           (case p_amount cur of
              Some amount \<Rightarrow> Some amount
            | None \<Rightarrow> (case third_field line of Some f \<Rightarrow> parse_number f | None \<Rightarrow> None))"
  using assms
  by (auto simp: reaches_candidate_def reaches_activity_match_def process_line_def
        candidate_line_def third_field_def amount_of_def Let_def split: option.splits)

theorem amount_set_once_witness:
  "reaches_candidate (ex_walk (ex_pending ''XYZ FUND'' None)) ex_triplet \<and>
   amount_of (process_line ex_ctx ''CAD'' (ex_walk (ex_pending ''XYZ FUND'' None)) ex_triplet)
     = Some (Fin (- 1000)) \<and>
   amount_of (process_line ex_ctx ''CAD'' (ex_walk (ex_pending ''XYZ FUND'' None)) ex_inline)
     = Some (Fin (- 1000)) \<and>
   amount_of (process_line ex_ctx ''CAD'' (ex_walk (ex_pending ''XYZ FUND'' (Some (Fin 7)))) ex_triplet)
     = Some (Fin 7) \<and>
   amount_of (process_line ex_ctx ''CAD'' (ex_walk (ex_pending ''XYZ FUND'' (Some (Fin 7)))) ex_inline)
     = Some (Fin 7)"
  using amount_set_once [OF ex_reaches_candidate(1) ex_selectors(1) [of "ex_pending ''XYZ FUND'' None"],
          where ctx = ex_ctx and page_currency = "''CAD''"]
    amount_set_once [OF ex_reaches_candidate(2) ex_selectors(1) [of "ex_pending ''XYZ FUND'' None"],
          where ctx = ex_ctx and page_currency = "''CAD''"]
    amount_set_once [OF ex_reaches_candidate(1) ex_selectors(1) [of "ex_pending ''XYZ FUND'' (Some (Fin 7))"],
          where ctx = ex_ctx and page_currency = "''CAD''"]
    amount_set_once [OF ex_reaches_candidate(2) ex_selectors(1) [of "ex_pending ''XYZ FUND'' (Some (Fin 7))"],
          where ctx = ex_ctx and page_currency = "''CAD''"]
  by (simp add: ex_selectors ex_third_field ex_parse_amount ex_reaches_candidate)

subsection \<open>A statement whose file name has no date\<close>

lemma ex_no_date: "extract_statement_year_month ''statement.pdf'' = None"
  by code_simp

text \<open>
  C8, as the code has it.  A statement whose file name holds no date fragment yields no
  trades, whatever its pages are, and nothing is printed for it.
\<close>

theorem undated_statement_skipped:
  "extract_statement_year_month name = None \<Longrightarrow>
     parse_rbc_statement_trades name pages c2s code2s = ([], [])"
  by (simp add: parse_rbc_statement_trades_def)

theorem undated_statement_skipped_witness:
  "extract_statement_year_month ''statement.pdf'' = None \<and>
   parse_rbc_statement_trades ''statement.pdf'' [ex_trade_page] [] [(''12345'', ''XYZF'')] = ([], [])"
  using undated_statement_skipped [OF ex_no_date] ex_no_date by simp

text \<open>
  C8, as the claim has it, asks for a diagnostic of the skip.  There is none: for a directory
  with the one file \<open>statement.pdf\<close> the statement prints nothing and the driver prints its
  two closing lines only, counting the file among the parsed ones.
\<close>

theorem skip_not_logged_counterexample:
  "extract_statement_year_month ''statement.pdf'' = None \<and>
   snd (parse_rbc_statement_trades ''statement.pdf'' [ex_trade_page] [] []) = [] \<and>
   parse_rbc (Some [''statement.pdf'']) (Some (map_of [(''statement.pdf'', [ex_trade_page])])) =
     ([], [''Parsed RBC statements: 1 files'', ''Parsed RBC trades: 0''])"
  by code_simp

subsection \<open>The asset review ends with its page\<close>

lemma alias_lines_outside_review:
  "\<forall>l \<in> set ls. \<not> contains l ''Asset Review'' \<Longrightarrow> foldl alias_line (False, tabs) ls = (False, tabs)"
  by (induction ls) (simp_all add: alias_line_def)

lemma activity_start_in_activity: "in_activity (activity_start ctx pc w m) = in_activity w"
  by (simp add: activity_start_def Let_def split: option.splits)

lemma process_line_in_activity:
  "\<not> is_activity_marker l \<Longrightarrow> in_activity (process_line ctx pc w l) = in_activity w"
  by (simp add: process_line_def is_activity_marker_def activity_start_in_activity
        split: option.splits)

lemma process_lines_in_activity:
  "\<forall>l \<in> set ls. \<not> is_activity_marker l \<Longrightarrow>
     in_activity (foldl (process_line ctx pc) w ls) = in_activity w"
  by (induction ls arbitrary: w) (simp_all add: process_line_in_activity)

lemma ex_row_with_header:
  "alias_page ([], []) (page_of_lines [''Asset Review'', ex_asset_row]) =
     ([(''XYZFUND12345'', ''XYZF'')], [(''12345'', ''XYZF'')])"
  by code_simp

lemma ex_row_alone:
  "\<forall>l \<in> set (page_lines (page_of_lines [ex_asset_row])). \<not> contains l ''Asset Review''"
  by code_simp

lemma ex_header_alone:
  "collect_rbc_asset_aliases [page_of_lines [''Asset Review'']] ([], []) = ([], [])"
  by code_simp

lemma ex_no_marker:
  "\<forall>l \<in> set (page_lines (page_of_lines [ex_dec_line])). \<not> is_activity_marker l"
  by code_simp

lemma ex_candidate_on_next_page:
  "current (process_page ex_ctx_jan ex_open_walk (page_of_lines [ex_dec_line])) \<noteq> None"
  by code_simp

text \<open>
  C9.  The alias builder starts every page outside the asset review: a page none of whose
  lines contains \<open>Asset Review\<close> adds nothing to the tables, whatever came on the pages
  before it.  The activity walk differs: a page without a section marker leaves
  \<open>in_activity\<close> as the page before left it.
\<close>

theorem asset_review_ends_with_page:
  "((\<forall>l \<in> set (page_lines page). \<not> contains l ''Asset Review'') \<longrightarrow>
      alias_page tabs page = tabs \<and>
      collect_rbc_asset_aliases (before @ page # after) tabs =
        collect_rbc_asset_aliases (before @ after) tabs) \<and>
   ((\<forall>l \<in> set (page_lines page). \<not> is_activity_marker l) \<longrightarrow>
      in_activity (process_page ctx w page) = in_activity w)"
  by (simp add: alias_page_def page_lines_def alias_lines_outside_review
        collect_rbc_asset_aliases_def process_page_def process_lines_in_activity)

theorem asset_review_ends_with_page_witness:
  "collect_rbc_asset_aliases
     [page_of_lines [''Asset Review''], page_of_lines [ex_asset_row]] ([], []) = ([], []) \<and>
   alias_page ([], []) (page_of_lines [''Asset Review'', ex_asset_row]) \<noteq> ([], []) \<and>
   in_activity (process_page ex_ctx_jan ex_open_walk (page_of_lines [ex_dec_line])) \<and>
   current (process_page ex_ctx_jan ex_open_walk (page_of_lines [ex_dec_line])) \<noteq> None"
proof -
  have "in_activity ex_open_walk"
    by (simp add: ex_open_walk_def)
  then show ?thesis
    using asset_review_ends_with_page
            [of "page_of_lines [ex_asset_row]" "([], [])" "[page_of_lines [''Asset Review'']]" "[]"
                ex_ctx_jan ex_open_walk]
          asset_review_ends_with_page
            [of "page_of_lines [ex_dec_line]" "([], [])" "[]" "[]" ex_ctx_jan ex_open_walk]
          ex_row_alone ex_no_marker
    by (simp add: ex_header_alone ex_row_with_header ex_candidate_on_next_page)
qed

subsection \<open>Symbol resolution\<close>

lemma best_candidate:
  assumes "cands \<noteq> []"
  shows "\<exists>best rest. sort_by_score_desc cands = best # rest \<and> best \<in> set cands \<and>
           (\<forall>c \<in> set cands. fst c \<le> fst best) \<and>
           best = hd (filter (\<lambda>c. fst c = fst best) cands)"
proof -
  let ?f = "\<lambda>c::nat \<times> string. - int (fst c)"
  let ?s = "sort_key ?f cands"
  have ne: "?s \<noteq> []" using assms by (metis length_0_conv length_sort)
  then obtain best rest where s: "?s = best # rest" by (cases ?s) auto
  have mem: "best \<in> set cands" using s by (metis list.set_intros(1) set_sort)
  have srt: "sorted (map ?f ?s)" by (rule sorted_sort_key)
  have "\<forall>c \<in> set cands. fst c \<le> fst best"
  proof
    fix c assume "c \<in> set cands"
    then have "c \<in> set ?s" by simp
    then have "c = best \<or> c \<in> set rest" using s by simp
    then show "fst c \<le> fst best" using srt s by auto
  qed
  moreover have "filter (\<lambda>c. ?f c = ?f best) ?s = filter (\<lambda>c. ?f c = ?f best) cands"
    by (rule sort_key_stable)
  then have "filter (\<lambda>c. fst c = fst best) cands = best # filter (\<lambda>c. fst c = fst best) rest"
    using s by simp
  then have "hd (filter (\<lambda>c. fst c = fst best) cands) = best"
    by simp
  ultimately show ?thesis using s mem by (auto simp: sort_by_score_desc_def)
qed

lemma scored_iff:
  "(score, symbol) \<in> set (scored desc c2s) \<longleftrightarrow>
       (\<exists>key. (key, symbol) \<in> set c2s \<and> key \<noteq> [] \<and>
          (if contained desc key then score = min (length key) (length (compact_desc_of desc))
           else 2 \<le> overlap_of desc key \<and>
                score = overlap_of desc key * 100 + min (length key) (length (compact_desc_of desc))))"
proof -
  have e: "entry_score (compact_desc_of desc) (token_key_set (normalize_space desc)) key = Some score \<longleftrightarrow>
     key \<noteq> [] \<and>
          (if contained desc key then score = min (length key) (length (compact_desc_of desc))
           else 2 \<le> overlap_of desc key \<and>
                score = overlap_of desc key * 100 + min (length key) (length (compact_desc_of desc)))" for key
    unfolding entry_score_def contained_def overlap_of_def Let_def by auto
  have "(score, symbol) \<in> set (scored desc c2s) \<longleftrightarrow>
     (\<exists>key. (key, symbol) \<in> set c2s \<and>
        entry_score (compact_desc_of desc) (token_key_set (normalize_space desc)) key = Some score)"
    unfolding scored_def candidates_of_def by (force split: option.splits)
  then show ?thesis using e by simp
qed

lemma resolve_unfolded:
  assumes "normalize_space desc \<noteq> []"
  shows "resolve_rbc_symbol desc c2s code2s =
    (case first_known code2s (paren_codes desc) of
       Some symbol \<Rightarrow> Some symbol
     | None \<Rightarrow>
     (case first_known code2s (bare_codes desc) of
       Some symbol \<Rightarrow> Some symbol
     | None \<Rightarrow>
     (case map_of c2s (compact_desc_of desc) of
       Some symbol \<Rightarrow> Some symbol
     | None \<Rightarrow>
     (case sort_by_score_desc (scored desc c2s) of
        [] \<Rightarrow> issuer_fallback desc
      | best # _ \<Rightarrow> Some (snd best)))))"
  using assms
  by (simp add: resolve_rbc_symbol_def Let_def paren_codes_def bare_codes_def compact_desc_of_def
        upper_desc_of_def scored_def issuer_fallback_def first_paren_code_def
      split: option.splits list.splits)

text \<open>
  C5.  Resolution goes by this precedence: the first code in parentheses that is a known
  numeric code decides, then the first free-standing code that is known; otherwise the
  entry whose key is the compact description; otherwise the entry with the highest score
  (the first such entry of the table), where a key that contains the compact description
  or is contained in it scores the smaller of the two lengths and a key that shares at
  least two tokens scores a hundred times their number plus that smaller length; and only
  when no entry scores, the symbol made up from the issuer RBC or FIDELITY and the first
  code in parentheses, or nothing.
\<close>

theorem resolution_precedence:
  assumes "normalize_space desc \<noteq> []"
  shows
   "(case first_known code2s (paren_codes desc) of
       Some symbol \<Rightarrow> resolve_rbc_symbol desc c2s code2s = Some symbol
     | None \<Rightarrow>
     (case first_known code2s (bare_codes desc) of
       Some symbol \<Rightarrow> resolve_rbc_symbol desc c2s code2s = Some symbol
     | None \<Rightarrow>
     (case map_of c2s (compact_desc_of desc) of
       Some symbol \<Rightarrow> resolve_rbc_symbol desc c2s code2s = Some symbol
     | None \<Rightarrow>
       (if scored desc c2s = [] then resolve_rbc_symbol desc c2s code2s = issuer_fallback desc
        else (\<exists>best \<in> set (scored desc c2s).
                resolve_rbc_symbol desc c2s code2s = Some (snd best) \<and>
                (\<forall>c \<in> set (scored desc c2s). fst c \<le> fst best) \<and>
                best = hd (filter (\<lambda>c. fst c = fst best) (scored desc c2s))))))) \<and>
    (\<forall>score symbol. (score, symbol) \<in> set (scored desc c2s) \<longleftrightarrow>
       (\<exists>key. (key, symbol) \<in> set c2s \<and> key \<noteq> [] \<and>
          (if contained desc key then score = min (length key) (length (compact_desc_of desc))
           else 2 \<le> overlap_of desc key \<and>
                score = overlap_of desc key * 100 + min (length key) (length (compact_desc_of desc)))))"
proof -
  have empty: "sort_by_score_desc [] = []"
    by (simp add: sort_by_score_desc_def)
  have "\<exists>best \<in> set (scored desc c2s).
         (case sort_by_score_desc (scored desc c2s) of [] \<Rightarrow> issuer_fallback desc
          | b # _ \<Rightarrow> Some (snd b)) = Some (snd best) \<and>
         (\<forall>c \<in> set (scored desc c2s). fst c \<le> fst best) \<and>
         best = hd (filter (\<lambda>c. fst c = fst best) (scored desc c2s))"
    if "scored desc c2s \<noteq> []"
  proof -
    from best_candidate [OF that] obtain best rest where
      b: "sort_by_score_desc (scored desc c2s) = best # rest" "best \<in> set (scored desc c2s)"
         "\<forall>c \<in> set (scored desc c2s). fst c \<le> fst best"
         "best = hd (filter (\<lambda>c. fst c = fst best) (scored desc c2s))"
      by blast
    show ?thesis
      by (rule bexI [OF _ b(2)]) (use b in simp)
  qed
  then show ?thesis
    using scored_iff [of _ _ desc c2s]
    by (simp add: resolve_unfolded [OF assms] empty split: option.splits)
qed

lemma ex_nonempty:
  "normalize_space ''XYZ FUND (12345) 678'' \<noteq> []"
  "normalize_space ''XYZ FUND 678 (999)'' \<noteq> []"
  "normalize_space ''Acme Corp. Class AB'' \<noteq> []"
  "normalize_space ''ACME CORP CLASS A'' \<noteq> []"
  "normalize_space ''ZED GLOBAL WORKS'' \<noteq> []"
  "normalize_space ''RBC BOND FUND (123)'' \<noteq> []"
  by code_simp+

lemma ex_paren_first: "first_known ex_codes (paren_codes ''XYZ FUND (12345) 678'') = Some ''AAA''"
  by code_simp

lemma ex_bare_second:
  "first_known ex_codes (paren_codes ''XYZ FUND 678 (999)'') = None"
  "first_known ex_codes (bare_codes ''XYZ FUND 678 (999)'') = Some ''BBB''"
  by code_simp+

lemma ex_no_code:
  "first_known ex_codes (paren_codes ''Acme Corp. Class AB'') = None"
  "first_known ex_codes (bare_codes ''Acme Corp. Class AB'') = None"
  "first_known ex_codes (paren_codes ''ACME CORP CLASS A'') = None"
  "first_known ex_codes (bare_codes ''ACME CORP CLASS A'') = None"
  "first_known ex_codes (paren_codes ''ZED GLOBAL WORKS'') = None"
  "first_known ex_codes (bare_codes ''ZED GLOBAL WORKS'') = None"
  "first_known [] (paren_codes ''RBC BOND FUND (123)'') = None"
  "first_known [] (bare_codes ''RBC BOND FUND (123)'') = None"
  by code_simp+

lemma ex_exact:
  "map_of ex_names (compact_desc_of ''Acme Corp. Class AB'') = Some ''ACME''"
  "map_of ex_names (compact_desc_of ''ACME CORP CLASS A'') = None"
  "map_of ex_names (compact_desc_of ''ZED GLOBAL WORKS'') = None"
  "map_of [] (compact_desc_of ''RBC BOND FUND (123)'') = None"
  by code_simp+

lemma ex_scored:
  "scored ''ACME CORP CLASS A'' ex_names = [(4, ''XXX''), (14, ''ACME'')]"
  "scored ''ZED GLOBAL WORKS'' ex_names = [(213, ''ZED'')]"
  "scored ''RBC BOND FUND (123)'' [] = []"
  by code_simp+

lemma ex_fallback: "issuer_fallback ''RBC BOND FUND (123)'' = Some ''RBF123''"
  by code_simp

theorem resolution_precedence_witness:
  "resolve_rbc_symbol ''XYZ FUND (12345) 678'' ex_names ex_codes = Some ''AAA'' \<and>
   resolve_rbc_symbol ''XYZ FUND 678 (999)'' ex_names ex_codes = Some ''BBB'' \<and>
   resolve_rbc_symbol ''Acme Corp. Class AB'' ex_names ex_codes = Some ''ACME'' \<and>
   resolve_rbc_symbol ''ACME CORP CLASS A'' ex_names ex_codes = Some ''ACME'' \<and>
   resolve_rbc_symbol ''ZED GLOBAL WORKS'' ex_names ex_codes = Some ''ZED'' \<and>
   resolve_rbc_symbol ''RBC BOND FUND (123)'' [] [] = Some ''RBF123''"
  using resolution_precedence [OF ex_nonempty(1), where code2s = ex_codes and c2s = ex_names]
    resolution_precedence [OF ex_nonempty(2), where code2s = ex_codes and c2s = ex_names]
    resolution_precedence [OF ex_nonempty(3), where code2s = ex_codes and c2s = ex_names]
    resolution_precedence [OF ex_nonempty(4), where code2s = ex_codes and c2s = ex_names]
    resolution_precedence [OF ex_nonempty(5), where code2s = ex_codes and c2s = ex_names]
    resolution_precedence [OF ex_nonempty(6), where code2s = "[]" and c2s = "[]"]
  by (auto simp: ex_paren_first ex_bare_second ex_no_code ex_exact ex_scored ex_fallback)

subsection \<open>The alias tables of the driver\<close>

lemma collect_append:
  "collect_rbc_asset_aliases (ps @ qs) tabs = collect_rbc_asset_aliases qs (collect_rbc_asset_aliases ps tabs)"
  by (simp add: collect_rbc_asset_aliases_def)

lemma build_aliases_from:
  "foldl (\<lambda>tabs name. collect_rbc_asset_aliases (pages_of pbf name) tabs) tabs paths =
     collect_rbc_asset_aliases (all_pages pbf paths) tabs"
  by (induction paths arbitrary: tabs) (simp_all add: all_pages_def collect_append collect_rbc_asset_aliases_def)

text \<open>
  C1, as the code has it.  The driver builds one pair of alias tables from the pages of all
  the selected statement files, in the order of the files, before any activity walk, and
  hands that same pair to the walk of every statement.
\<close>

theorem one_table_for_all_statements:
  "build_aliases pbf (list_rbc_statement_pdfs dir) =
     collect_rbc_asset_aliases (all_pages pbf (list_rbc_statement_pdfs dir)) ([], []) \<and>
   fst (parse_rbc dir (Some pbf)) =
     concat (map (\<lambda>name. fst (statement_results pbf
                   (collect_rbc_asset_aliases (all_pages pbf (list_rbc_statement_pdfs dir)) ([], [])) name))
                 (list_rbc_statement_pdfs dir))"
  by (simp add: parse_rbc_def Let_def build_aliases_def build_aliases_from comp_def)

text \<open>
  C1, as the claim has it, wants the table of a statement to hold the entries of that
  statement's pages only.  Here the pages of the second file give no alias entry, and
  with an empty table its trade is not resolved; the driver resolves it, from the asset
  review of the first file.
\<close>

theorem own_table_counterexample:
  "list_rbc_statement_pdfs ex_dir = [''a-2023-01-10.pdf'', ''b-2023-02-10.pdf''] \<and>
   collect_rbc_asset_aliases (pages_of ex_files ''b-2023-02-10.pdf'') ([], []) = ([], []) \<and>
   fst (parse_rbc_statement_trades ''b-2023-02-10.pdf'' (pages_of ex_files ''b-2023-02-10.pdf'') [] []) = [] \<and>
   build_aliases ex_files (list_rbc_statement_pdfs ex_dir) =
     ([(''XYZFUND12345'', ''XYZF'')], [(''12345'', ''XYZF'')]) \<and>
   fst (parse_rbc ex_dir (Some ex_files)) = [(''2023-01-15'', ''BUY'', ''XYZF'', Fin 1000)]"
  by code_simp

end
